theory Spec2Isabelle
  imports Complex_Main "HOL-Library.Sublist"
begin

section \<open>Numbers and text\<close>

text \<open>
  Python integers are \<^typ>\<open>int\<close>; the result of \<open>len\<close> is a \<^typ>\<open>nat\<close>. A Python float
  is modelled by the rational number it denotes (\<^typ>\<open>rat\<close>): comparisons with the
  literals of the source are then exact, and \<open>'%w.pf' % x\<close> rounds the exact value of \<open>x\<close>
  to \<open>p\<close> decimals, ties to even, as the C library does. Float arithmetic is modelled
  by exact arithmetic; NaN and the infinities are outside the model. Where a float
  quotient is not the exact quotient, the last printed digit can differ from Python's
  at a rounding tie: 64.5 seconds are 1.075 minutes exactly, printed here as \<open>1.08\<close>,
  while the float \<open>64.5 / 60\<close> lies just below 1.075 and Python prints \<open>1.07\<close>. The
  theorems below read printed digits only for values where both agree.
\<close>

definition digit_char :: "nat \<Rightarrow> char" where
  "digit_char d = ''0123456789'' ! d"

function str_digits :: "int \<Rightarrow> string" where
  \<comment> \<open>the decimal digits of a number that is not negative\<close>
  "str_digits n =
     (if n < 10 then [digit_char (nat n)]
      else str_digits (n div 10) @ [digit_char (nat (n mod 10))])"
  by pat_completeness auto
termination
  by (relation "measure nat") auto

declare str_digits.simps [simp del]

definition str_int :: "int \<Rightarrow> string" where
  \<comment> \<open>\<open>'%s' % i\<close> for an integer \<open>i\<close>\<close>
  "str_int i = (if i < 0 then ''-'' @ str_digits (- i) else str_digits i)"

definition round_half_even :: "rat \<Rightarrow> int" where
  "round_half_even x =
     (let f = \<lfloor>x\<rfloor>; d = x - of_int f
      in if d < 1 / 2 then f
         else if 1 / 2 < d then f + 1
         else if even f then f else f + 1)"

definition fmt_f :: "nat \<Rightarrow> nat \<Rightarrow> rat \<Rightarrow> string" where
  \<comment> \<open>\<open>'%w.pf' % x\<close>: \<open>p\<close> decimals, padded with spaces on the left to width \<open>w\<close>\<close>
  "fmt_f width prec x =
     (let n = round_half_even (\<bar>x\<bar> * 10 ^ prec);
          frac = str_digits (n mod 10 ^ prec);
          body = (if x < 0 then ''-'' else '''') @ str_digits (n div 10 ^ prec) @
                 (if prec = 0 then ''''
                  else ''.'' @ replicate (prec - length frac) (CHR ''0'') @ frac)
      in replicate (width - length body) (CHR '' '') @ body)"

definition TAB :: string where
  "TAB = [CHR 0x09]"

definition sign_prefix :: "rat \<Rightarrow> string" where
  \<comment> \<open>\<open>'+' if x > 0 else ''\<close>\<close>
  "sign_prefix x = (if 0 < x then ''+'' else '''')"

definition np_average :: "rat \<Rightarrow> rat" where
  \<comment> \<open>\<open>np.average\<close> of a scalar is that scalar\<close>
  "np_average x = x"

section \<open>Utility functions\<close>

definition pretty_time :: "rat \<Rightarrow> string" where
  "pretty_time secs =
     (if secs < 60 then fmt_f 4 2 secs @ '' secs''
      else if secs < 3600 then fmt_f 4 2 (secs / 60) @ '' mins''
      else if secs < 86400 then fmt_f 4 2 (secs / 60 / 60) @ '' hrs''
      else fmt_f 3 2 (secs / 60 / 60 / 24) @ '' days'')"

definition dividing_line :: string where
  "dividing_line =
     ''------'' @ TAB @ TAB @ ''------'' @ TAB @ TAB @ ''------'' @ TAB @ TAB @
     ''------'' @ TAB @ TAB @ ''------''"

definition epoch_start_line :: "int \<Rightarrow> string" where
  "epoch_start_line epoch =
     ''Epoch '' @ str_int epoch @ TAB @ TAB @ ''loss'' @ TAB @ ''(avg.)'' @ TAB @ TAB @
     ''acc'' @ TAB @ ''(avg.)'' @ TAB @ ''t(avg.)'' @ TAB @ TAB @ ''remaining''"

definition epoch_line :: "rat \<Rightarrow> rat \<Rightarrow> rat \<Rightarrow> string" where
  \<comment> \<open>the format of \<open>_report_epoch\<close>, in the order of its parameters\<close>
  "epoch_line avg_time change_loss change_acc =
     TAB @ TAB @ TAB @ sign_prefix change_loss @ fmt_f 10 5 change_loss @ TAB @ TAB @
     sign_prefix change_acc @ fmt_f 6 4 change_acc @ ''%'' @ TAB @
     pretty_time (np_average avg_time) @ TAB"

definition step_line :: "int \<Rightarrow> rat \<Rightarrow> rat \<Rightarrow> rat \<Rightarrow> rat \<Rightarrow> rat \<Rightarrow> int \<Rightarrow> string" where
  \<comment> \<open>the format of \<open>_report_step\<close>\<close>
  "step_line percent loss avg_loss acc avg_acc avg_time remaining =
     str_int percent @ ''%:'' @ TAB @ TAB @
     fmt_f 8 5 loss @ TAB @
     fmt_f 8 5 avg_loss @ TAB @
     fmt_f 6 4 (acc * 100) @ ''%'' @ TAB @
     fmt_f 6 4 (avg_acc * 100) @ ''%'' @ TAB @
     pretty_time avg_time @ TAB @
     pretty_time (avg_time * of_int remaining)"

definition tuning_line :: "rat \<Rightarrow> rat \<Rightarrow> string" where
  \<comment> \<open>the format of \<open>_tune\<close>\<close>
  "tuning_line avg_acc change_acc =
     ''Average tuning accuracy: '' @ fmt_f 5 3 (avg_acc * 100) @ ''% ('' @
     sign_prefix change_acc @ fmt_f 5 3 (change_acc * 100) @ ''%)''"

definition os_path_join :: "string \<Rightarrow> string \<Rightarrow> string" where
  \<comment> \<open>\<open>os.path.join\<close> of two components (POSIX)\<close>
  "os_path_join a b =
     (if b \<noteq> [] \<and> hd b = CHR ''/'' then b
      else if a = [] \<or> last a = CHR ''/'' then a @ b
      else a @ ''/'' @ b)"

section \<open>Errors, collaborators and state\<close>

datatype error = NotImplementedError | ZeroDivisionError | FileNotFoundError | AttributeError

definition py_mod :: "int \<Rightarrow> int \<Rightarrow> error + int" where
  "py_mod a b = (if b = 0 then Inl ZeroDivisionError else Inr (a mod b))"

definition py_truediv :: "rat \<Rightarrow> rat \<Rightarrow> error + rat" where
  "py_truediv a b = (if b = 0 then Inl ZeroDivisionError else Inr (a / b))"

datatype trainer_class = TrainerBase | PyTorchTrainer

record 'p model =
  name :: string
  state_dict :: 'p
  training :: bool
  on_cuda :: bool

datatype 'b tune_source = Loader "'b list" | LoaderList "'b list list"

text \<open>
  What the trainer does to its collaborators and to the outside, in order: the lines it
  prints, the methods of the model and of the history it calls, the files it reads and
  writes.
\<close>

datatype ('b, 'l) event =
    Print string
  | ModelTrain
  | ModelEval
  | ModelCuda
  | ModelZeroGrad
  | ModelForward 'b
  | ModelOptimize 'l
  | ModelLoadStateDict
  | TorchSave string
  | TorchLoad string
  | HistoryEndStep rat rat rat
  | HistoryEndEpoch rat
  | HistoryEndTuning rat
  | HistorySave

text \<open>
  The model, the history and the clock are not part of this module: the trainer calls
  them through fixed interfaces. Their behaviour is a parameter of every definition
  below: \<open>'p\<close> are the model's parameters, \<open>'h\<close> the history, \<open>'b\<close> a batch and \<open>'l\<close> the
  loss tensor the forward pass returns.
\<close>

record ('p, 'h, 'b, 'l) collab =
  clock :: "nat \<Rightarrow> rat"
  m_forward :: "'p model \<Rightarrow> 'b \<Rightarrow> 'l \<times> rat"
  m_optimize :: "'p model \<Rightarrow> 'l \<Rightarrow> 'p"
  l_value :: "'l \<Rightarrow> rat"
  h_global_step :: "'h \<Rightarrow> int"
  h_global_epoch :: "'h \<Rightarrow> int"
  h_end_step :: "'h \<Rightarrow> rat \<Rightarrow> rat \<Rightarrow> rat \<Rightarrow> 'h \<times> (int \<times> rat \<times> rat \<times> rat)"
  h_end_epoch :: "'h \<Rightarrow> rat \<Rightarrow> 'h \<times> (rat \<times> rat \<times> rat \<times> rat \<times> rat \<times> bool)"
  h_end_tuning :: "'h \<Rightarrow> rat \<Rightarrow> 'h \<times> (rat \<times> rat)"

record ('p, 'h, 'b, 'l) world =
  files :: "string \<rightharpoonup> 'p"
  saved_history :: "'h option"
  ticks :: nat
  events :: "('b, 'l) event list"

record ('p, 'h, 'b, 'l) trainer = "('p, 'h, 'b, 'l) world" +
  cls :: trainer_class
  model :: "'p model"
  history :: 'h
  train_loader :: "'b list"
  tune_loader :: "'b tune_source"
  batches_per_epoch :: nat
  ckpt_dir :: string
  epoch_start :: "rat option"
  epoch_end :: "rat option"
  step_start :: "rat option"
  step_end :: "rat option"

section \<open>Statements that may raise\<close>

text \<open>
  A statement takes the state and returns its result, or the exception it raised, with
  the state it left: what was done before an exception stays done.
\<close>

definition return :: "'a \<Rightarrow> 's \<Rightarrow> (error + 'a) \<times> 's" where
  "return a s = (Inr a, s)"

definition raise :: "error \<Rightarrow> 's \<Rightarrow> (error + 'a) \<times> 's" where
  "raise e s = (Inl e, s)"

definition then_do ::
  "('s \<Rightarrow> (error + 'a) \<times> 's) \<Rightarrow> ('a \<Rightarrow> 's \<Rightarrow> (error + 'b) \<times> 's) \<Rightarrow> 's \<Rightarrow> (error + 'b) \<times> 's" where
  "then_do m f s = (case m s of (Inl e, s') \<Rightarrow> (Inl e, s') | (Inr a, s') \<Rightarrow> f a s')"

definition read :: "('s \<Rightarrow> error + 'a) \<Rightarrow> 's \<Rightarrow> (error + 'a) \<times> 's" where
  "read f s = (f s, s)"

definition attr :: "('s \<Rightarrow> 'a option) \<Rightarrow> 's \<Rightarrow> (error + 'a) \<times> 's" where
  \<comment> \<open>an attribute of \<open>self\<close> that is only there once it has been assigned\<close>
  "attr f s = (case f s of None \<Rightarrow> (Inl AttributeError, s) | Some v \<Rightarrow> (Inr v, s))"

definition modify :: "('s \<Rightarrow> 's) \<Rightarrow> 's \<Rightarrow> (error + unit) \<times> 's" where
  "modify f s = (Inr (), f s)"

type_synonym ('p, 'h, 'b, 'l, 'a) stmt =
  "('p, 'h, 'b, 'l) trainer \<Rightarrow> (error + 'a) \<times> ('p, 'h, 'b, 'l) trainer"

definition emit :: "('b, 'l) event \<Rightarrow> ('p, 'h, 'b, 'l, unit) stmt" where
  "emit ev = modify (\<lambda>s. s\<lparr>events := events s @ [ev]\<rparr>)"

definition py_print :: "string \<Rightarrow> ('p, 'h, 'b, 'l, unit) stmt" where
  "py_print line = emit (Print line)"

definition time_time :: "('p, 'h, 'b, 'l) collab \<Rightarrow> ('p, 'h, 'b, 'l, rat) stmt" where
  "time_time E s = (Inr (clock E (ticks s)), s\<lparr>ticks := Suc (ticks s)\<rparr>)"

subsection \<open>The model\<close>

definition model_train :: "('p, 'h, 'b, 'l, unit) stmt" where
  "model_train =
     then_do (emit ModelTrain) (\<lambda>_.
     modify (\<lambda>s. s\<lparr>model := (model s)\<lparr>training := True\<rparr>\<rparr>))"

definition model_eval :: "('p, 'h, 'b, 'l, unit) stmt" where
  "model_eval =
     then_do (emit ModelEval) (\<lambda>_.
     modify (\<lambda>s. s\<lparr>model := (model s)\<lparr>training := False\<rparr>\<rparr>))"

definition model_cuda :: "('p, 'h, 'b, 'l, unit) stmt" where
  "model_cuda =
     then_do (emit ModelCuda) (\<lambda>_.
     modify (\<lambda>s. s\<lparr>model := (model s)\<lparr>on_cuda := True\<rparr>\<rparr>))"

definition model_zero_grad :: "('p, 'h, 'b, 'l, unit) stmt" where
  "model_zero_grad = emit ModelZeroGrad"

definition model_forward :: "('p, 'h, 'b, 'l) collab \<Rightarrow> 'b \<Rightarrow> ('p, 'h, 'b, 'l, 'l \<times> rat) stmt" where
  \<comment> \<open>\<open>_, loss, acc = self.model.forward(batch)\<close>\<close>
  "model_forward E batch =
     then_do (emit (ModelForward batch)) (\<lambda>_.
     read (\<lambda>s. Inr (m_forward E (model s) batch)))"

definition model_optimize :: "('p, 'h, 'b, 'l) collab \<Rightarrow> 'l \<Rightarrow> ('p, 'h, 'b, 'l, unit) stmt" where
  "model_optimize E loss =
     then_do (emit (ModelOptimize loss)) (\<lambda>_.
     modify (\<lambda>s. s\<lparr>model := (model s)\<lparr>state_dict := m_optimize E (model s) loss\<rparr>\<rparr>))"

definition model_load_state_dict :: "'p \<Rightarrow> ('p, 'h, 'b, 'l, unit) stmt" where
  "model_load_state_dict p =
     then_do (emit ModelLoadStateDict) (\<lambda>_.
     modify (\<lambda>s. s\<lparr>model := (model s)\<lparr>state_dict := p\<rparr>\<rparr>))"

subsection \<open>Files\<close>

definition torch_save :: "'p \<Rightarrow> string \<Rightarrow> ('p, 'h, 'b, 'l, unit) stmt" where
  "torch_save p file_path =
     then_do (emit (TorchSave file_path)) (\<lambda>_.
     modify (\<lambda>s. s\<lparr>files := (files s)(file_path \<mapsto> p)\<rparr>))"

definition torch_load :: "string \<Rightarrow> ('p, 'h, 'b, 'l, 'p) stmt" where
  "torch_load file_path =
     then_do (emit (TorchLoad file_path)) (\<lambda>_.
     read (\<lambda>s. case files s file_path of None \<Rightarrow> Inl FileNotFoundError | Some p \<Rightarrow> Inr p))"

subsection \<open>The history\<close>

definition history_end_step ::
  "('p, 'h, 'b, 'l) collab \<Rightarrow> rat \<Rightarrow> rat \<Rightarrow> rat \<Rightarrow> ('p, 'h, 'b, 'l, int \<times> rat \<times> rat \<times> rat) stmt" where
  "history_end_step E time_taken loss acc =
     then_do (emit (HistoryEndStep time_taken loss acc)) (\<lambda>_ s.
     case h_end_step E (history s) time_taken loss acc of
       (h, r) \<Rightarrow> (Inr r, s\<lparr>history := h\<rparr>))"

definition history_end_epoch ::
  "('p, 'h, 'b, 'l) collab \<Rightarrow> rat \<Rightarrow> ('p, 'h, 'b, 'l, rat \<times> rat \<times> rat \<times> rat \<times> rat \<times> bool) stmt" where
  "history_end_epoch E time_taken =
     then_do (emit (HistoryEndEpoch time_taken)) (\<lambda>_ s.
     case h_end_epoch E (history s) time_taken of
       (h, r) \<Rightarrow> (Inr r, s\<lparr>history := h\<rparr>))"

definition history_end_tuning ::
  "('p, 'h, 'b, 'l) collab \<Rightarrow> rat \<Rightarrow> ('p, 'h, 'b, 'l, rat \<times> rat) stmt" where
  "history_end_tuning E tuning_acc =
     then_do (emit (HistoryEndTuning tuning_acc)) (\<lambda>_ s.
     case h_end_tuning E (history s) tuning_acc of
       (h, r) \<Rightarrow> (Inr r, s\<lparr>history := h\<rparr>))"

definition history_save :: "('p, 'h, 'b, 'l, unit) stmt" where
  "history_save =
     then_do (emit HistorySave) (\<lambda>_.
     modify (\<lambda>s. s\<lparr>saved_history := Some (history s)\<rparr>))"

section \<open>The trainer\<close>

subsection \<open>Properties\<close>

definition ckpt_path :: "('p, 'h, 'b, 'l) trainer \<Rightarrow> bool \<Rightarrow> string" where
  "ckpt_path s is_best =
     os_path_join (ckpt_dir s)
       (name (model s) @ ''_'' @ (if is_best then ''best'' else ''latest''))"

definition progress_percent :: "('p, 'h, 'b, 'l) collab \<Rightarrow> ('p, 'h, 'b, 'l) trainer \<Rightarrow> error + int" where
  "progress_percent E s =
     (case py_mod (h_global_step E (history s)) (int (batches_per_epoch s)) of
        Inl e \<Rightarrow> Inl e
      | Inr r \<Rightarrow>
          (case py_truediv (of_int r) (of_nat (batches_per_epoch s)) of
             Inl e \<Rightarrow> Inl e
           | Inr q \<Rightarrow> (let percent = q * 100 in Inr (\<lceil>percent / 10\<rceil> * 10))))"

definition report_every :: "('p, 'h, 'b, 'l) trainer \<Rightarrow> int" where
  "report_every s = \<lfloor>(of_nat (batches_per_epoch s) :: rat) / 10\<rfloor>"

definition steps_remaining :: "('p, 'h, 'b, 'l) collab \<Rightarrow> ('p, 'h, 'b, 'l) trainer \<Rightarrow> error + int" where
  "steps_remaining E s =
     (case py_mod (h_global_step E (history s)) (int (batches_per_epoch s)) of
        Inl e \<Rightarrow> Inl e
      | Inr r \<Rightarrow> Inr (int (batches_per_epoch s) - r))"

definition stopping_condition_met :: "('p, 'h, 'b, 'l) trainer \<Rightarrow> bool" where
  "stopping_condition_met s = False"

subsection \<open>The methods a deriving class implements\<close>

definition TrainerBase_checkpoint :: "bool \<Rightarrow> ('p, 'h, 'b, 'l, unit) stmt" where
  "TrainerBase_checkpoint is_best = raise NotImplementedError"

definition TrainerBase_load_last :: "('p, 'h, 'b, 'l, unit) stmt" where
  "TrainerBase_load_last = raise NotImplementedError"

definition TrainerBase_step :: "'b \<Rightarrow> ('p, 'h, 'b, 'l, rat \<times> rat) stmt" where
  "TrainerBase_step batch = raise NotImplementedError"

definition PyTorchTrainer_checkpoint :: "bool \<Rightarrow> ('p, 'h, 'b, 'l, unit) stmt" where
  "PyTorchTrainer_checkpoint is_best =
     then_do (read (\<lambda>s. Inr (ckpt_path s False))) (\<lambda>file_path.
     then_do (read (\<lambda>s. Inr (state_dict (model s)))) (\<lambda>sd.
     then_do (torch_save sd file_path) (\<lambda>_.
     if is_best then
       then_do (read (\<lambda>s. Inr (ckpt_path s True))) (\<lambda>file_path.
       then_do (read (\<lambda>s. Inr (state_dict (model s)))) (\<lambda>sd.
       torch_save sd file_path))
     else return ())))"

definition PyTorchTrainer_load_last :: "('p, 'h, 'b, 'l, unit) stmt" where
  "PyTorchTrainer_load_last =
     then_do (read (\<lambda>s. Inr (ckpt_path s False))) (\<lambda>file_path.
     then_do (torch_load file_path) (\<lambda>p.
     model_load_state_dict p))"

definition PyTorchTrainer_step :: "('p, 'h, 'b, 'l) collab \<Rightarrow> 'b \<Rightarrow> ('p, 'h, 'b, 'l, rat \<times> rat) stmt" where
  "PyTorchTrainer_step E batch =
     then_do model_zero_grad (\<lambda>_.
     then_do (model_forward E batch) (\<lambda>(loss, acc).
     then_do (model_optimize E loss) (\<lambda>_.
     return (l_value E loss, acc))))"

text \<open>A call \<open>self._checkpoint(...)\<close>, \<open>self._load_last()\<close> or \<open>self.step(...)\<close> runs the
  method of the class of \<open>self\<close>.\<close>

definition self_checkpoint :: "bool \<Rightarrow> ('p, 'h, 'b, 'l, unit) stmt" where
  "self_checkpoint is_best s =
     (case cls s of
        TrainerBase \<Rightarrow> TrainerBase_checkpoint is_best s
      | PyTorchTrainer \<Rightarrow> PyTorchTrainer_checkpoint is_best s)"

definition self_load_last :: "('p, 'h, 'b, 'l, unit) stmt" where
  "self_load_last s =
     (case cls s of
        TrainerBase \<Rightarrow> TrainerBase_load_last s
      | PyTorchTrainer \<Rightarrow> PyTorchTrainer_load_last s)"

definition self_step :: "('p, 'h, 'b, 'l) collab \<Rightarrow> 'b \<Rightarrow> ('p, 'h, 'b, 'l, rat \<times> rat) stmt" where
  "self_step E batch s =
     (case cls s of
        TrainerBase \<Rightarrow> TrainerBase_step batch s
      | PyTorchTrainer \<Rightarrow> PyTorchTrainer_step E batch s)"

subsection \<open>Construction\<close>

definition new_trainer ::
  "trainer_class \<Rightarrow> 'p model \<Rightarrow> 'h \<Rightarrow> 'b list \<Rightarrow> 'b tune_source \<Rightarrow> string \<Rightarrow>
   ('p, 'h, 'b, 'l) world \<Rightarrow> ('p, 'h, 'b, 'l) trainer" where
  \<comment> \<open>the assignments of \<open>__init__\<close>; the timing attributes are not assigned yet\<close>
  "new_trainer c m h train tune dir w =
     \<lparr>files = files w, saved_history = saved_history w, ticks = ticks w, events = events w,
      cls = c, model = m, history = h, train_loader = train, tune_loader = tune,
      batches_per_epoch = length train, ckpt_dir = dir,
      epoch_start = None, epoch_end = None, step_start = None, step_end = None\<rparr>"



subsection \<open>Reporting\<close>

definition print_dividing_lines :: "('p, 'h, 'b, 'l, unit) stmt" where
  "print_dividing_lines = py_print dividing_line"

definition print_epoch_start :: "int \<Rightarrow> ('p, 'h, 'b, 'l, unit) stmt" where
  "print_epoch_start epoch =
     then_do print_dividing_lines (\<lambda>_.
     then_do (py_print (epoch_start_line epoch)) (\<lambda>_.
     print_dividing_lines))"

definition report_epoch :: "rat \<Rightarrow> rat \<Rightarrow> rat \<Rightarrow> ('p, 'h, 'b, 'l, unit) stmt" where
  "report_epoch avg_time change_loss change_acc =
     then_do print_dividing_lines (\<lambda>_.
     py_print (epoch_line avg_time change_loss change_acc))"

definition report_step ::
  "('p, 'h, 'b, 'l) collab \<Rightarrow> int \<Rightarrow> rat \<Rightarrow> rat \<Rightarrow> rat \<Rightarrow> rat \<Rightarrow> rat \<Rightarrow> ('p, 'h, 'b, 'l, unit) stmt" where
  "report_step E global_step loss avg_loss acc avg_acc avg_time =
     then_do (read (\<lambda>s. py_mod global_step (report_every s))) (\<lambda>r.
     if r = 0 then
       then_do (read (progress_percent E)) (\<lambda>percent.
       then_do (read (steps_remaining E)) (\<lambda>remaining.
       py_print (step_line percent loss avg_loss acc avg_acc avg_time remaining)))
     else return ())"

subsection \<open>Steps and epochs\<close>

definition start_epoch :: "('p, 'h, 'b, 'l) collab \<Rightarrow> ('p, 'h, 'b, 'l, unit) stmt" where
  "start_epoch E =
     then_do (read (\<lambda>s. Inr (h_global_epoch E (history s)))) (\<lambda>epoch.
     then_do (print_epoch_start epoch) (\<lambda>_.
     then_do model_train (\<lambda>_.
     then_do (time_time E) (\<lambda>t.
     modify (\<lambda>s. s\<lparr>epoch_start := Some t\<rparr>)))))"

definition start_step :: "('p, 'h, 'b, 'l) collab \<Rightarrow> ('p, 'h, 'b, 'l, unit) stmt" where
  "start_step E =
     then_do (time_time E) (\<lambda>t.
     modify (\<lambda>s. s\<lparr>step_start := Some t\<rparr>))"

definition end_step :: "('p, 'h, 'b, 'l) collab \<Rightarrow> rat \<Rightarrow> rat \<Rightarrow> ('p, 'h, 'b, 'l, unit) stmt" where
  "end_step E loss acc =
     then_do (time_time E) (\<lambda>t.
     then_do (modify (\<lambda>s. s\<lparr>step_end := Some t\<rparr>)) (\<lambda>_.
     then_do (attr step_start) (\<lambda>t0.
     then_do (history_end_step E (t - t0) loss acc) (\<lambda>(global_step, avg_time, avg_loss, avg_acc).
     report_step E global_step loss avg_loss acc avg_acc avg_time))))"

definition end_epoch :: "('p, 'h, 'b, 'l) collab \<Rightarrow> ('p, 'h, 'b, 'l, unit) stmt" where
  "end_epoch E =
     then_do (time_time E) (\<lambda>t.
     then_do (modify (\<lambda>s. s\<lparr>epoch_end := Some t\<rparr>)) (\<lambda>_.
     then_do (attr epoch_start) (\<lambda>t0.
     then_do (history_end_epoch E (t - t0))
       (\<lambda>(avg_time, avg_loss, change_loss, avg_acc, change_acc, is_best).
     then_do (report_epoch avg_time avg_loss change_loss) (\<lambda>_.
     then_do (self_checkpoint is_best) (\<lambda>_.
     history_save))))))"

subsection \<open>Tuning\<close>

fun tune_batches :: "('p, 'h, 'b, 'l) collab \<Rightarrow> 'b list \<Rightarrow> rat \<Rightarrow> ('p, 'h, 'b, 'l, rat) stmt" where
  "tune_batches E [] cum_acc = return cum_acc"
| "tune_batches E (batch # rest) cum_acc =
     then_do (model_forward E batch) (\<lambda>(loss, acc).
     tune_batches E rest (cum_acc + acc))"

definition tune :: "('p, 'h, 'b, 'l) collab \<Rightarrow> 'b list \<Rightarrow> ('p, 'h, 'b, 'l, unit) stmt" where
  "tune E loader =
     then_do (tune_batches E loader 0) (\<lambda>cum_acc.
     then_do (read (\<lambda>s. py_truediv cum_acc (of_nat (length loader)))) (\<lambda>tuning_acc.
     then_do (history_end_tuning E tuning_acc) (\<lambda>(avg_acc, change_acc).
     py_print (tuning_line avg_acc change_acc))))"

fun tune_each :: "('p, 'h, 'b, 'l) collab \<Rightarrow> 'b list list \<Rightarrow> ('p, 'h, 'b, 'l, unit) stmt" where
  "tune_each E [] = return ()"
| "tune_each E (loader # rest) = then_do (tune E loader) (\<lambda>_. tune_each E rest)"

definition tuning :: "('p, 'h, 'b, 'l) collab \<Rightarrow> ('p, 'h, 'b, 'l, unit) stmt" where
  "tuning E =
     then_do model_eval (\<lambda>_.
     then_do (\<lambda>s. (case tune_loader s of
                      LoaderList loaders \<Rightarrow> tune_each E loaders
                    | Loader loader \<Rightarrow> tune E loader) s) (\<lambda>_.
     model_train))"

subsection \<open>Training\<close>

fun train_batches :: "('p, 'h, 'b, 'l) collab \<Rightarrow> 'b list \<Rightarrow> ('p, 'h, 'b, 'l, unit) stmt" where
  \<comment> \<open>the \<open>for\<close> loop of \<open>train\<close>\<close>
  "train_batches E [] = return ()"
| "train_batches E (batch # rest) =
     then_do (start_step E) (\<lambda>_.
     then_do (self_step E batch) (\<lambda>(loss, acc).
     then_do (end_step E loss acc) (\<lambda>_.
     train_batches E rest)))"

definition train_epoch :: "('p, 'h, 'b, 'l) collab \<Rightarrow> ('p, 'h, 'b, 'l, unit) stmt" where
  \<comment> \<open>the body of the \<open>while\<close> loop of \<open>train\<close>\<close>
  "train_epoch E =
     then_do (start_epoch E) (\<lambda>_.
     then_do (\<lambda>s. train_batches E (train_loader s) s) (\<lambda>_.
     then_do (tuning E) (\<lambda>_.
     end_epoch E)))"

text \<open>The loop of \<open>train\<close> ends only when the stopping condition holds or an exception is
  raised; with fuel for \<open>n\<close> epochs, \<open>None\<close> says that it was still running.\<close>

fun train :: "('p, 'h, 'b, 'l) collab \<Rightarrow> nat \<Rightarrow> ('p, 'h, 'b, 'l) trainer \<Rightarrow>
    (error + unit) option \<times> ('p, 'h, 'b, 'l) trainer" where
  "train E 0 s = (None, s)"
| "train E (Suc n) s =
     (if stopping_condition_met s then (Some (Inr ()), s)
      else (case train_epoch E s of
              (Inl e, s') \<Rightarrow> (Some (Inl e), s')
            | (Inr _, s') \<Rightarrow> train E n s'))"

section \<open>An example run\<close>

text \<open>Concrete collaborators, on which the theorems below are instantiated: the history
  is its global step, a batch and the parameters are numbers.\<close>

definition example_collab :: "(nat, int, nat, rat) collab" where
  "example_collab =
     \<lparr>clock = (\<lambda>n. 100 * of_nat n),
      m_forward = (\<lambda>m batch. (1 / 2, 3 / 4)),
      m_optimize = (\<lambda>m loss. Suc (state_dict m)),
      l_value = (\<lambda>loss. loss),
      h_global_step = (\<lambda>h. h),
      h_global_epoch = (\<lambda>h. 0),
      h_end_step = (\<lambda>h d l a. (h + 1, (h + 1, d, l, a))),
      h_end_epoch = (\<lambda>h d. (h, (120, 1 / 2, - 1 / 10, 4 / 5, 1 / 20, True))),
      h_end_tuning = (\<lambda>h a. (h, (a, 1 / 20)))\<rparr>"

definition example_model :: "nat model" where
  "example_model = \<lparr>name = ''m'', state_dict = 0, training = True, on_cuda = False\<rparr>"

definition example_world :: "(string \<rightharpoonup> nat) \<Rightarrow> (nat, int, nat, rat) world" where
  "example_world fs = \<lparr>files = fs, saved_history = None, ticks = 0, events = []\<rparr>"

definition example_trainer :: "nat list \<Rightarrow> nat tune_source \<Rightarrow> (nat, int, nat, rat) trainer" where
  "example_trainer batches sources =
     new_trainer PyTorchTrainer example_model 0 batches sources ''ckpt'' (example_world Map.empty)"

section \<open>The tuning pass as specified\<close>

text \<open>The sequence of a tuning pass in the words of the specification, to be compared
  with \<open>tuning\<close>: the tuning sources are the configured one or the configured list; the
  tuning accuracy of a source is the sum of the accuracies of its batches divided by the
  number of its batches; for each source, every batch goes through the forward pass, the
  tuning accuracy is given to the history's \<open>end_tuning\<close> and one line is printed.\<close>

definition spec_tuning_sources :: "'b tune_source \<Rightarrow> 'b list list" where
  "spec_tuning_sources src = (case src of Loader loader \<Rightarrow> [loader] | LoaderList loaders \<Rightarrow> loaders)"

definition spec_tuning_acc :: "('p, 'h, 'b, 'l) collab \<Rightarrow> 'p model \<Rightarrow> 'b list \<Rightarrow> rat" where
  "spec_tuning_acc E m loader =
     sum_list (map (\<lambda>batch. snd (m_forward E m batch)) loader) / of_nat (length loader)"

fun spec_tuning_pass ::
  "('p, 'h, 'b, 'l) collab \<Rightarrow> 'p model \<Rightarrow> 'h \<Rightarrow> 'b list list \<Rightarrow> ('b, 'l) event list \<times> 'h" where
  "spec_tuning_pass E m h [] = ([], h)"
| "spec_tuning_pass E m h (loader # rest) =
     (case h_end_tuning E h (spec_tuning_acc E m loader) of
        (h', avg_acc, change_acc) \<Rightarrow>
          (case spec_tuning_pass E m h' rest of
             (evs, h'') \<Rightarrow>
               (map ModelForward loader @
                [HistoryEndTuning (spec_tuning_acc E m loader),
                 Print (tuning_line avg_acc change_acc)] @ evs, h'')))"

section \<open>Printed lines and the step counter\<close>

definition printed_lines :: "('b, 'l) event list \<Rightarrow> string list" where
  \<comment> \<open>the lines that were printed, in order\<close>
  "printed_lines evs = concat (map (\<lambda>ev. case ev of Print line \<Rightarrow> [line] | _ \<Rightarrow> []) evs)"


section \<open>The time format\<close>

lemma suffix_append_cases:
  assumes "suffix a (p @ b)"
  shows "suffix a b \<or> suffix b a"
proof -
  have "suffix b (p @ b)" by (simp add: suffix_def)
  with assms show ?thesis by (rule suffix_same_cases)
qed

lemma unit_suffixes:
  "\<not> suffix '' secs'' (p @ '' mins'')" "\<not> suffix '' secs'' (p @ '' hrs'')"
  "\<not> suffix '' secs'' (p @ '' days'')" "\<not> suffix '' mins'' (p @ '' secs'')"
  "\<not> suffix '' mins'' (p @ '' hrs'')" "\<not> suffix '' mins'' (p @ '' days'')"
  "\<not> suffix '' hrs'' (p @ '' secs'')" "\<not> suffix '' hrs'' (p @ '' mins'')"
  "\<not> suffix '' hrs'' (p @ '' days'')" "\<not> suffix '' days'' (p @ '' secs'')"
  "\<not> suffix '' days'' (p @ '' mins'')" "\<not> suffix '' days'' (p @ '' hrs'')"
  by (auto dest!: suffix_append_cases simp: suffix_to_prefix)

text \<open>
  Claim C2. \<open>pretty_time\<close> is a function of the duration alone. It gives \<open>30.00 secs\<close>
  for 30, \<open>1.50 mins\<close> for 90, \<open>2.00 hrs\<close> for 7200 and \<open>2.00 days\<close> for 172800. For every
  duration \<open>d\<close> the result ends in \<open>secs\<close> exactly when \<open>d < 60\<close>, in \<open>mins\<close> exactly when
  \<open>60 \<le> d < 3600\<close>, in \<open>hrs\<close> exactly when \<open>3600 \<le> d < 86400\<close> and in \<open>days\<close> exactly when
  \<open>86400 \<le> d\<close>: the boundary values 60, 3600 and 86400 take the larger unit.
\<close>

theorem pretty_time_branches:
  "pretty_time 30 = ''30.00 secs'' \<and> pretty_time 90 = ''1.50 mins'' \<and>
   pretty_time 7200 = ''2.00 hrs'' \<and> pretty_time 172800 = ''2.00 days'' \<and>
   (\<forall>d. (suffix '' secs'' (pretty_time d) \<longleftrightarrow> d < 60) \<and>
        (suffix '' mins'' (pretty_time d) \<longleftrightarrow> 60 \<le> d \<and> d < 3600) \<and>
        (suffix '' hrs'' (pretty_time d) \<longleftrightarrow> 3600 \<le> d \<and> d < 86400) \<and>
        (suffix '' days'' (pretty_time d) \<longleftrightarrow> 86400 \<le> d))"
proof -
  have examples: "pretty_time 30 = ''30.00 secs''" "pretty_time 90 = ''1.50 mins''"
    "pretty_time 7200 = ''2.00 hrs''" "pretty_time 172800 = ''2.00 days''"
    by code_simp+
  have branches: "(suffix '' secs'' (pretty_time d) \<longleftrightarrow> d < 60) \<and>
        (suffix '' mins'' (pretty_time d) \<longleftrightarrow> 60 \<le> d \<and> d < 3600) \<and>
        (suffix '' hrs'' (pretty_time d) \<longleftrightarrow> 3600 \<le> d \<and> d < 86400) \<and>
        (suffix '' days'' (pretty_time d) \<longleftrightarrow> 86400 \<le> d)" for d
    by (simp add: pretty_time_def suffix_appendI unit_suffixes)
  from examples branches show ?thesis by blast
qed

section \<open>Unfolding the statements\<close>

lemmas stmt_defs = return_def raise_def then_do_def read_def attr_def modify_def emit_def
  py_print_def time_time_def

lemmas collab_defs = model_train_def model_eval_def model_cuda_def model_zero_grad_def
  model_forward_def model_optimize_def model_load_state_dict_def torch_save_def torch_load_def
  history_end_step_def history_end_epoch_def history_end_tuning_def history_save_def

section \<open>The abstract methods\<close>

text \<open>
  Claim C9. On the base trainer, \<open>step\<close>, \<open>_checkpoint\<close> and \<open>_load_last\<close> raise
  \<open>NotImplementedError\<close> at once: the state they return with the exception is the state
  they were called in, so nothing was assigned, no file was written and no method of the
  model was called (the list of events is the same). A call through \<open>self\<close> on a trainer
  of class \<open>TrainerBase\<close> does the same.
\<close>

theorem base_methods_raise:
  "TrainerBase_step batch s = (Inl NotImplementedError, s) \<and>
   TrainerBase_checkpoint is_best s = (Inl NotImplementedError, s) \<and>
   TrainerBase_load_last s = (Inl NotImplementedError, s) \<and>
   self_step E batch (s\<lparr>cls := TrainerBase\<rparr>) = (Inl NotImplementedError, s\<lparr>cls := TrainerBase\<rparr>) \<and>
   self_checkpoint is_best (s\<lparr>cls := TrainerBase\<rparr>) = (Inl NotImplementedError, s\<lparr>cls := TrainerBase\<rparr>) \<and>
   self_load_last (s\<lparr>cls := TrainerBase\<rparr>) = (Inl NotImplementedError, s\<lparr>cls := TrainerBase\<rparr>)"
  by (simp add: TrainerBase_step_def TrainerBase_checkpoint_def TrainerBase_load_last_def
      self_step_def self_checkpoint_def self_load_last_def raise_def)

section \<open>Checkpoint files\<close>



text \<open>For a directory name that is not empty and has no slash at its end, and a model
  name with no slash at its start, the two paths are the directory, a slash, the model
  name and \<open>_latest\<close> or \<open>_best\<close>.\<close>

lemma ckpt_path_plain:
  assumes "ckpt_dir s \<noteq> []" "last (ckpt_dir s) \<noteq> CHR ''/''"
    and "name (model s) = [] \<or> hd (name (model s)) \<noteq> CHR ''/''"
  shows "ckpt_path s False = ckpt_dir s @ ''/'' @ name (model s) @ ''_latest''"
    and "ckpt_path s True = ckpt_dir s @ ''/'' @ name (model s) @ ''_best''"
  using assms by (cases "name (model s)"; simp add: ckpt_path_def os_path_join_def)+


section \<open>Progress within an epoch\<close>

lemma ceiling_tenths:
  fixes r b :: int
  assumes "0 \<le> r" "r < b"
  shows "0 \<le> \<lceil>(of_int r / of_int b * 100 :: rat) / 10\<rceil>"
    and "\<lceil>(of_int r / of_int b * 100 :: rat) / 10\<rceil> \<le> 10"
proof -
  let ?q = "(of_int r / of_int b * 100 :: rat) / 10"
  have b: "(0::rat) < of_int b" using assms by simp
  have "0 \<le> ?q" using assms by simp
  then show "0 \<le> \<lceil>?q\<rceil>" by (simp add: ceiling_le_iff order.trans [OF _ le_of_int_ceiling])
  have "(of_int r :: rat) / of_int b \<le> 1" using assms b by (simp add: divide_le_eq)
  then have "?q \<le> 10" by simp
  then show "\<lceil>?q\<rceil> \<le> 10" by (simp add: ceiling_le_iff)
qed

text \<open>
  Claim C5. With at least one batch per epoch and any global step, \<open>progress_percent\<close>
  returns \<open>ceil(100 * (global_step mod batches_per_epoch) / batches_per_epoch / 10) * 10\<close>,
  a multiple of 10 between 0 and 100.
\<close>

theorem progress_percent_formula:
  assumes "1 \<le> batches_per_epoch s"
  shows "progress_percent E s =
           Inr (\<lceil>(100 * of_int (h_global_step E (history s) mod int (batches_per_epoch s))
                   / of_nat (batches_per_epoch s) / 10 :: rat)\<rceil> * 10) \<and>
         (\<exists>p. progress_percent E s = Inr p \<and> 10 dvd p \<and> 0 \<le> p \<and> p \<le> 100)"
proof -
  let ?b = "int (batches_per_epoch s)"
  let ?r = "h_global_step E (history s) mod ?b"
  have b: "0 < ?b" using assms by simp
  have r: "0 \<le> ?r" "?r < ?b" using b by simp_all
  have eq: "progress_percent E s = Inr (\<lceil>(of_int ?r / of_int ?b * 100 :: rat) / 10\<rceil> * 10)"
    using assms by (simp add: progress_percent_def py_mod_def py_truediv_def)
  have same: "(of_int ?r / of_int ?b * 100 :: rat) / 10 = 100 * of_int ?r / of_nat (batches_per_epoch s) / 10"
    by simp
  from ceiling_tenths [OF r] eq same show ?thesis by simp
qed

theorem progress_percent_formula_witness:
  "1 \<le> batches_per_epoch (example_trainer [1, 2, 3] (Loader [])) \<and>
   progress_percent example_collab ((example_trainer [1, 2, 3] (Loader []))\<lparr>history := 7\<rparr>) = Inr 40"
proof -
  have c: "\<lceil>10 / 3 :: rat\<rceil> = 4" by (rule ceiling_unique) simp_all
  show ?thesis
    using progress_percent_formula [of "(example_trainer [1, 2, 3] (Loader []))\<lparr>history := 7\<rparr>" example_collab]
    by (simp add: example_trainer_def new_trainer_def example_collab_def c)
qed

text \<open>
  Claim C6. With at least one batch per epoch and any global step, \<open>steps_remaining\<close>
  returns a number that, added to \<open>global_step mod batches_per_epoch\<close>, gives
  \<open>batches_per_epoch\<close>.
\<close>

theorem steps_remaining_sum:
  assumes "1 \<le> batches_per_epoch s"
  shows "\<exists>r. steps_remaining E s = Inr r \<and>
             r + h_global_step E (history s) mod int (batches_per_epoch s) = int (batches_per_epoch s)"
  using assms by (simp add: steps_remaining_def py_mod_def)

theorem steps_remaining_sum_witness:
  "1 \<le> batches_per_epoch (example_trainer [1, 2, 3] (Loader [])) \<and>
   steps_remaining example_collab ((example_trainer [1, 2, 3] (Loader []))\<lparr>history := 7\<rparr>) = Inr 2"
  using steps_remaining_sum [of "(example_trainer [1, 2, 3] (Loader []))\<lparr>history := 7\<rparr>" example_collab]
  by (simp add: example_trainer_def new_trainer_def example_collab_def)

section \<open>Construction\<close>

lemma new_trainer_fields [simp]:
  "files (new_trainer c m h bs ts dir w) = files w"
  "events (new_trainer c m h bs ts dir w) = events w"
  "model (new_trainer c m h bs ts dir w) = m"
  "history (new_trainer c m h bs ts dir w) = h"
  "cls (new_trainer c m h bs ts dir w) = c"
  "ckpt_dir (new_trainer c m h bs ts dir w) = dir"
  "batches_per_epoch (new_trainer c m h bs ts dir w) = length bs"
  "train_loader (new_trainer c m h bs ts dir w) = bs"
  "tune_loader (new_trainer c m h bs ts dir w) = ts"
  by (simp_all add: new_trainer_def)



section \<open>The report at the end of an epoch\<close>

text \<open>What \<open>_end_epoch\<close> does on a PyTorch trainer whose epoch has been started: the
  line it prints is \<open>_report_epoch\<close>'s line for the average time, the average loss and
  the change of the loss, in the places of the average time, the change of the loss and
  the change of the accuracy.\<close>

lemma end_epoch_events:
  assumes "epoch_start s = Some t0" and "cls s = PyTorchTrainer"
    and "h_end_epoch E (history s) (clock E (ticks s) - t0) =
           (h', avg_time, avg_loss, change_loss, avg_acc, change_acc, is_best)"
  shows "fst (end_epoch E s) = Inr ()"
    and "events (snd (end_epoch E s)) =
           events s @ [HistoryEndEpoch (clock E (ticks s) - t0), Print dividing_line,
                       Print (epoch_line avg_time avg_loss change_loss),
                       TorchSave (ckpt_path s False)] @
           (if is_best then [TorchSave (ckpt_path s True)] else []) @ [HistorySave]"
  using assms
  by (simp_all add: end_epoch_def report_epoch_def print_dividing_lines_def self_checkpoint_def
      PyTorchTrainer_checkpoint_def stmt_defs collab_defs ckpt_path_def)

text \<open>
  Claim C1. The report line of an epoch should hold the change of the average loss and
  the change of the average accuracy that the history's \<open>end_epoch\<close> returned. On the
  example, where \<open>end_epoch\<close> returns the average time 120, the average loss 0.5, the
  change of the loss -0.1, the average accuracy 0.8 and the change of the accuracy 0.05,
  \<open>_end_epoch\<close> prints the line with \<open>+   0.50000\<close> and \<open>-0.1000%\<close>: the average loss
  in the place of the change of the loss, and the change of the loss in the place of the
  change of the accuracy. The line for the values the claim names would hold
  \<open>  -0.10000\<close> and \<open>+0.0500%\<close>.
\<close>

theorem end_epoch_prints_avg_loss:
  "events (snd (end_epoch example_collab ((example_trainer [] (Loader []))\<lparr>epoch_start := Some 0\<rparr>))) =
     [HistoryEndEpoch 0, Print dividing_line, Print (epoch_line 120 (1 / 2) (- 1 / 10)),
      TorchSave ''ckpt/m_latest'', TorchSave ''ckpt/m_best'', HistorySave] \<and>
   h_end_epoch example_collab 0 0 = (0, 120, 1 / 2, - 1 / 10, 4 / 5, 1 / 20, True) \<and>
   epoch_line 120 (1 / 2) (- 1 / 10) =
     TAB @ TAB @ TAB @ ''+   0.50000'' @ TAB @ TAB @ ''-0.1000%'' @ TAB @ ''2.00 mins'' @ TAB \<and>
   epoch_line 120 (- 1 / 10) (1 / 20) =
     TAB @ TAB @ TAB @ ''  -0.10000'' @ TAB @ TAB @ ''+0.0500%'' @ TAB @ ''2.00 mins'' @ TAB"
proof -
  have ev: "events (snd (end_epoch example_collab ((example_trainer [] (Loader []))\<lparr>epoch_start := Some 0\<rparr>))) =
     [HistoryEndEpoch 0, Print dividing_line, Print (epoch_line 120 (1 / 2) (- 1 / 10)),
      TorchSave ''ckpt/m_latest'', TorchSave ''ckpt/m_best'', HistorySave]"
    using end_epoch_events(2) [of "(example_trainer [] (Loader []))\<lparr>epoch_start := Some 0\<rparr>" 0
        example_collab 0 120 "1 / 2" "- 1 / 10" "4 / 5" "1 / 20" True]
    by (simp add: example_trainer_def example_collab_def example_world_def example_model_def
        new_trainer_def ckpt_path_def os_path_join_def)
  have h: "h_end_epoch example_collab 0 0 = (0, 120, 1 / 2, - 1 / 10, 4 / 5, 1 / 20, True)"
    by (simp add: example_collab_def)
  have l1: "epoch_line 120 (1 / 2) (- 1 / 10) =
     TAB @ TAB @ TAB @ ''+   0.50000'' @ TAB @ TAB @ ''-0.1000%'' @ TAB @ ''2.00 mins'' @ TAB"
    by code_simp
  have l2: "epoch_line 120 (- 1 / 10) (1 / 20) =
     TAB @ TAB @ TAB @ ''  -0.10000'' @ TAB @ TAB @ ''+0.0500%'' @ TAB @ ''2.00 mins'' @ TAB"
    by code_simp
  from ev h l1 l2 show ?thesis by blast
qed

section \<open>Fewer than ten batches\<close>

lemma report_every_small: "batches_per_epoch s < 10 \<Longrightarrow> report_every s = 0"
  by (simp add: report_every_def floor_eq_iff)

lemma report_every_pos: "10 \<le> batches_per_epoch s \<Longrightarrow> 0 < report_every s"
  by (simp add: report_every_def less_floor_iff le_divide_eq)

lemma report_step_returns:
  assumes "10 \<le> batches_per_epoch s"
  shows "fst (report_step E g loss avg_loss acc avg_acc avg_time s) = Inr ()"
  using assms report_every_pos [OF assms]
  by (simp add: report_step_def progress_percent_def steps_remaining_def py_mod_def py_truediv_def
      stmt_defs)

lemma report_step_raises:
  assumes "batches_per_epoch s < 10"
  shows "report_step E g loss avg_loss acc avg_acc avg_time s = (Inl ZeroDivisionError, s)"
  using report_every_small [OF assms]
  by (simp add: report_step_def py_mod_def stmt_defs)

lemma end_step_raises:
  assumes "batches_per_epoch s < 10" "step_start s = Some t0"
  shows "fst (end_step E loss acc s) = Inl ZeroDivisionError"
  using assms
  by (simp add: end_step_def history_end_step_def stmt_defs report_step_raises split: prod.splits)

lemma end_step_returns:
  assumes "10 \<le> batches_per_epoch s" "step_start s = Some t0"
  shows "fst (end_step E loss acc s) = Inr ()"
  using assms
  by (simp add: end_step_def history_end_step_def stmt_defs report_step_returns split: prod.splits)

lemma train_batches_raises:
  assumes "batches_per_epoch s < 10" "cls s = PyTorchTrainer"
  shows "fst (train_batches E (batch # rest) s) = Inl ZeroDivisionError"
  using assms
  by (simp add: start_step_def self_step_def PyTorchTrainer_step_def end_step_def
      history_end_step_def stmt_defs collab_defs report_step_raises split: prod.splits)

lemma start_epoch_keeps:
  "fst (start_epoch E s) = Inr ()"
  "batches_per_epoch (snd (start_epoch E s)) = batches_per_epoch s"
  "cls (snd (start_epoch E s)) = cls s"
  "train_loader (snd (start_epoch E s)) = train_loader s"
  by (simp_all add: start_epoch_def print_epoch_start_def print_dividing_lines_def
      stmt_defs collab_defs)

lemma train_raises:
  assumes "batches_per_epoch s < 10" "cls s = PyTorchTrainer" "train_loader s = batch # rest"
  shows "fst (train E (Suc n) s) = Some (Inl ZeroDivisionError)"
proof -
  obtain s1 where s1: "start_epoch E s = (Inr (), s1)"
    using start_epoch_keeps(1) [of E s] by (cases "start_epoch E s") simp
  have k: "batches_per_epoch s1 < 10" "cls s1 = PyTorchTrainer" "train_loader s1 = batch # rest"
    using start_epoch_keeps(2-4) [of E s] assms s1 by simp_all
  obtain s2 where s2: "train_batches E (batch # rest) s1 = (Inl ZeroDivisionError, s2)"
    using train_batches_raises [OF k(1,2), of E batch rest]
    by (cases "train_batches E (batch # rest) s1") simp
  have "train_epoch E s = (Inl ZeroDivisionError, s2)"
    using s1 s2 k(3) by (simp add: train_epoch_def then_do_def)
  then show ?thesis by (simp add: stopping_condition_met_def)
qed

text \<open>
  Claim C10. With fewer than 10 batches per epoch \<open>report_every\<close> is 0, and the check
  \<open>global_step % self.report_every\<close> of \<open>_report_step\<close> raises \<open>ZeroDivisionError\<close> for
  every global step, before anything is printed. So \<open>_end_step\<close> raises it at every step,
  the loop over the batches of a PyTorch trainer raises it at its first batch, and
  \<open>train\<close> ends with this exception in its first epoch when the training source has a
  batch. With at least 10 batches per epoch \<open>_end_step\<close> returns normally. Hence a step
  that has been started completes exactly when there are at least 10 batches per epoch.
\<close>

theorem fewer_than_ten_batches:
  "(batches_per_epoch s < 10 \<longrightarrow>
      report_every s = 0 \<and>
      report_step E g loss avg_loss acc avg_acc avg_time s = (Inl ZeroDivisionError, s) \<and>
      (step_start s = Some began \<longrightarrow> fst (end_step E loss acc s) = Inl ZeroDivisionError) \<and>
      (cls s = PyTorchTrainer \<longrightarrow>
         fst (train_batches E (batch # rest) s) = Inl ZeroDivisionError \<and>
         (train_loader s = batch # rest \<longrightarrow> fst (train E (Suc n) s) = Some (Inl ZeroDivisionError)))) \<and>
   (10 \<le> batches_per_epoch s \<longrightarrow> step_start s = Some began \<longrightarrow> fst (end_step E loss acc s) = Inr ()) \<and>
   (step_start s = Some began \<longrightarrow> (fst (end_step E loss acc s) = Inr () \<longleftrightarrow> 10 \<le> batches_per_epoch s))"
proof -
  have a: "batches_per_epoch s < 10 \<Longrightarrow> step_start s = Some began \<Longrightarrow>
      fst (end_step E loss acc s) = Inl ZeroDivisionError"
    by (rule end_step_raises)
  have b: "10 \<le> batches_per_epoch s \<Longrightarrow> step_start s = Some began \<Longrightarrow>
      fst (end_step E loss acc s) = Inr ()"
    by (rule end_step_returns)
  have c: "step_start s = Some began \<Longrightarrow>
      (fst (end_step E loss acc s) = Inr () \<longleftrightarrow> 10 \<le> batches_per_epoch s)"
    using a b by (cases "10 \<le> batches_per_epoch s") auto
  show ?thesis
    using a b c report_every_small [of s] report_step_raises [of s E g loss avg_loss acc avg_acc avg_time]
      train_batches_raises [of s E batch rest] train_raises [of s batch rest E n]
    by blast
qed

theorem fewer_than_ten_batches_witness:
  "batches_per_epoch (example_trainer [1, 2, 3] (Loader [])) < 10 \<and>
   cls (example_trainer [1, 2, 3] (Loader [])) = PyTorchTrainer \<and>
   train_loader (example_trainer [1, 2, 3] (Loader [])) = 1 # [2, 3] \<and>
   report_every (example_trainer [1, 2, 3] (Loader [])) = 0 \<and>
   fst (train_batches example_collab (1 # [2, 3]) (example_trainer [1, 2, 3] (Loader []))) =
     Inl ZeroDivisionError \<and>
   fst (train example_collab (Suc 0) (example_trainer [1, 2, 3] (Loader []))) =
     Some (Inl ZeroDivisionError) \<and>
   10 \<le> batches_per_epoch ((example_trainer [1, 2, 3, 4, 5, 6, 7, 8, 9, 10] (Loader []))\<lparr>step_start := Some 0\<rparr>) \<and>
   step_start ((example_trainer [1, 2, 3, 4, 5, 6, 7, 8, 9, 10] (Loader []))\<lparr>step_start := Some 0\<rparr>) = Some 0 \<and>
   fst (end_step example_collab (1 / 2) (3 / 4)
     ((example_trainer [1, 2, 3, 4, 5, 6, 7, 8, 9, 10] (Loader []))\<lparr>step_start := Some 0\<rparr>)) = Inr ()"
  using fewer_than_ten_batches [where s = "example_trainer [1, 2, 3] (Loader [])" and E = example_collab
      and batch = 1 and rest = "[2, 3]" and n = 0 and began = 0]
    fewer_than_ten_batches [where s = "(example_trainer [1, 2, 3, 4, 5, 6, 7, 8, 9, 10] (Loader []))\<lparr>step_start := Some 0\<rparr>"
      and E = example_collab and loss = "1 / 2" and acc = "3 / 4" and began = 0]
  by (simp add: example_trainer_def)

section \<open>The tuning pass\<close>

lemma tune_batches_run:
  "tune_batches E loader c s =
     (Inr (c + sum_list (map (\<lambda>batch. snd (m_forward E (model s) batch)) loader)),
      s\<lparr>events := events s @ map ModelForward loader\<rparr>)"
proof (induction loader arbitrary: c s)
  case Nil
  show ?case by (simp add: return_def)
next
  case (Cons batch rest)
  show ?case
    by (simp add: Cons.IH model_forward_def stmt_defs split: prod.splits)
qed

lemma tune_run:
  assumes "loader \<noteq> []"
    and "h_end_tuning E (history s) (spec_tuning_acc E (model s) loader) = (h', avg_acc, change_acc)"
  shows "tune E loader s =
     (Inr (), s\<lparr>events := events s @ map ModelForward loader @
                  [HistoryEndTuning (spec_tuning_acc E (model s) loader),
                   Print (tuning_line avg_acc change_acc)],
                history := h'\<rparr>)"
  using assms
  by (simp add: tune_def tune_batches_run spec_tuning_acc_def py_truediv_def
      history_end_tuning_def stmt_defs)

lemma tune_each_run:
  assumes "\<forall>loader \<in> set loaders. loader \<noteq> []"
  shows "tune_each E loaders s =
     (Inr (), s\<lparr>events := events s @ fst (spec_tuning_pass E (model s) (history s) loaders),
                history := snd (spec_tuning_pass E (model s) (history s) loaders)\<rparr>)"
  using assms
proof (induction loaders arbitrary: s)
  case Nil
  show ?case by (simp add: return_def)
next
  case (Cons loader rest)
  obtain h' avg_acc change_acc where
    h: "h_end_tuning E (history s) (spec_tuning_acc E (model s) loader) = (h', avg_acc, change_acc)"
    by (cases "h_end_tuning E (history s) (spec_tuning_acc E (model s) loader)") auto
  have ne: "loader \<noteq> []" and rest: "\<forall>loader \<in> set rest. loader \<noteq> []"
    using Cons.prems by simp_all
  show ?case
    by (simp add: tune_run [OF ne h] Cons.IH [OF rest] h then_do_def split: prod.splits)
qed

lemma spec_tuning_pass_no_optimize:
  "ModelOptimize l \<notin> set (fst (spec_tuning_pass E m h loaders))"
proof (induction loaders arbitrary: h)
  case Nil
  show ?case by simp
next
  case (Cons loader rest)
  obtain h' avg_acc change_acc where
    h: "h_end_tuning E h (spec_tuning_acc E m loader) = (h', avg_acc, change_acc)"
    by (cases "h_end_tuning E h (spec_tuning_acc E m loader)") auto
  obtain evs h'' where r: "spec_tuning_pass E m h' rest = (evs, h'')"
    by (cases "spec_tuning_pass E m h' rest") auto
  have "ModelOptimize l \<notin> set evs" using Cons.IH [of h'] r by simp
  then show ?case using h r by auto
qed

lemma model_eval_run:
  "model_eval s = (Inr (), s\<lparr>events := events s @ [ModelEval], model := (model s)\<lparr>training := False\<rparr>\<rparr>)"
  by (simp add: model_eval_def stmt_defs)

lemma model_train_run:
  "model_train s = (Inr (), s\<lparr>events := events s @ [ModelTrain], model := (model s)\<lparr>training := True\<rparr>\<rparr>)"
  by (simp add: model_train_def stmt_defs)

lemma tuning_run:
  assumes "\<forall>loader \<in> set (spec_tuning_sources (tune_loader s)). loader \<noteq> []"
  shows "tuning E s =
     (Inr (), s\<lparr>events := events s @ [ModelEval] @
                  fst (spec_tuning_pass E ((model s)\<lparr>training := False\<rparr>) (history s)
                         (spec_tuning_sources (tune_loader s))) @ [ModelTrain],
                history := snd (spec_tuning_pass E ((model s)\<lparr>training := False\<rparr>) (history s)
                         (spec_tuning_sources (tune_loader s))),
                model := (model s)\<lparr>training := True\<rparr>\<rparr>)"
proof (cases "tune_loader s")
  case (Loader loader)
  let ?s1 = "s\<lparr>events := events s @ [ModelEval], model := (model s)\<lparr>training := False\<rparr>\<rparr>"
  obtain h' avg_acc change_acc where
    h: "h_end_tuning E (history ?s1) (spec_tuning_acc E (model ?s1) loader) = (h', avg_acc, change_acc)"
    by (cases "h_end_tuning E (history ?s1) (spec_tuning_acc E (model ?s1) loader)") auto
  have ne: "loader \<noteq> []" using assms Loader by (simp add: spec_tuning_sources_def)
  have h2: "h_end_tuning E (history s) (spec_tuning_acc E ((model s)\<lparr>training := False\<rparr>) loader) =
      (h', avg_acc, change_acc)"
    using h by simp
  show ?thesis
    using Loader h2
    by (simp add: tuning_def then_do_def model_eval_run model_train_run tune_run [OF ne h]
        spec_tuning_sources_def)
next
  case (LoaderList loaders)
  let ?s1 = "s\<lparr>events := events s @ [ModelEval], model := (model s)\<lparr>training := False\<rparr>\<rparr>"
  have ne: "\<forall>loader \<in> set loaders. loader \<noteq> []"
    using assms LoaderList by (simp add: spec_tuning_sources_def)
  show ?thesis
    using LoaderList
    by (simp add: tuning_def then_do_def model_eval_run model_train_run
        tune_each_run [OF ne, of E ?s1] spec_tuning_sources_def)
qed

text \<open>A source that has no batch: \<open>_tune\<close> raises at the division, before \<open>end_tuning\<close>.
  In a list of sources, the sources before the first empty one are tuned, and the pass
  ends there: no later source is tuned and \<open>model.train()\<close> is not called.\<close>

lemma tune_empty_raises: "tune E [] s = (Inl ZeroDivisionError, s)"
  by (simp add: tune_def py_truediv_def stmt_defs)

lemma tune_each_raises:
  assumes "\<forall>loader \<in> set pre. loader \<noteq> []"
  shows "tune_each E (pre @ [] # post) s =
     (Inl ZeroDivisionError,
      s\<lparr>events := events s @ fst (spec_tuning_pass E (model s) (history s) pre),
        history := snd (spec_tuning_pass E (model s) (history s) pre)\<rparr>)"
  using assms
proof (induction pre arbitrary: s)
  case Nil
  show ?case by (simp add: tune_empty_raises then_do_def)
next
  case (Cons loader rest)
  obtain h' avg_acc change_acc where
    h: "h_end_tuning E (history s) (spec_tuning_acc E (model s) loader) = (h', avg_acc, change_acc)"
    by (cases "h_end_tuning E (history s) (spec_tuning_acc E (model s) loader)") auto
  have ne: "loader \<noteq> []" and rest: "\<forall>loader \<in> set rest. loader \<noteq> []"
    using Cons.prems by simp_all
  show ?case
    by (simp add: tune_run [OF ne h] Cons.IH [OF rest] h then_do_def split: prod.splits)
qed

lemma tuning_raises:
  assumes "spec_tuning_sources (tune_loader s) = pre @ [] # post"
    and "\<forall>loader \<in> set pre. loader \<noteq> []"
  shows "tuning E s =
     (Inl ZeroDivisionError,
      s\<lparr>events := events s @ [ModelEval] @
                  fst (spec_tuning_pass E ((model s)\<lparr>training := False\<rparr>) (history s) pre),
        history := snd (spec_tuning_pass E ((model s)\<lparr>training := False\<rparr>) (history s) pre),
        model := (model s)\<lparr>training := False\<rparr>\<rparr>)"
proof (cases "tune_loader s")
  case (Loader loader)
  have "[loader] = pre @ [] # post" using assms(1) Loader by (simp add: spec_tuning_sources_def)
  then have e: "pre = []" "loader = []" by (cases pre; simp)+
  show ?thesis
    using Loader e
    by (simp add: tuning_def then_do_def model_eval_run tune_empty_raises)
next
  case (LoaderList loaders)
  let ?s1 = "s\<lparr>events := events s @ [ModelEval], model := (model s)\<lparr>training := False\<rparr>\<rparr>"
  have l: "loaders = pre @ [] # post"
    using assms(1) LoaderList by (simp add: spec_tuning_sources_def)
  show ?thesis
    using LoaderList
    by (simp add: tuning_def then_do_def model_eval_run l
        tune_each_raises [OF assms(2), of E post ?s1])
qed

text \<open>
  Claim C7, for tuning sources that each have a batch. A tuning pass returns normally
  and does exactly this: \<open>model.eval()\<close>; then, for the configured source or for each
  source of the configured list in turn, one forward pass for every batch, one call of the
  history's \<open>end_tuning\<close> with the sum of the accuracies of the batches divided by the
  number of batches, and one printed line with the two values \<open>end_tuning\<close> returned; then
  \<open>model.train()\<close>. No \<open>optimize\<close> is called, the parameters of the model are those it had,
  and the model is in training mode at the end.
\<close>

theorem tuning_sequence:
  assumes "\<forall>loader \<in> set (spec_tuning_sources (tune_loader s)). loader \<noteq> []"
  shows "fst (tuning E s) = Inr () \<and>
         events (snd (tuning E s)) =
           events s @ [ModelEval] @
           fst (spec_tuning_pass E ((model s)\<lparr>training := False\<rparr>) (history s)
                  (spec_tuning_sources (tune_loader s))) @ [ModelTrain] \<and>
         (\<forall>l. ModelOptimize l \<notin>
            set (fst (spec_tuning_pass E ((model s)\<lparr>training := False\<rparr>) (history s)
                        (spec_tuning_sources (tune_loader s))))) \<and>
         history (snd (tuning E s)) =
           snd (spec_tuning_pass E ((model s)\<lparr>training := False\<rparr>) (history s)
                  (spec_tuning_sources (tune_loader s))) \<and>
         model (snd (tuning E s)) = (model s)\<lparr>training := True\<rparr>"
  by (simp add: tuning_run [OF assms] spec_tuning_pass_no_optimize)

theorem tuning_sequence_witness:
  "[] \<notin> set (spec_tuning_sources (tune_loader (example_trainer [] (LoaderList [[1, 2], [3]])))) \<and>
   fst (tuning example_collab (example_trainer [] (LoaderList [[1, 2], [3]]))) = Inr () \<and>
   events (snd (tuning example_collab (example_trainer [] (LoaderList [[1, 2], [3]])))) =
     [ModelEval,
      ModelForward 1, ModelForward 2, HistoryEndTuning (3 / 4), Print (tuning_line (3 / 4) (1 / 20)),
      ModelForward 3, HistoryEndTuning (3 / 4), Print (tuning_line (3 / 4) (1 / 20)),
      ModelTrain] \<and>
   training (model (snd (tuning example_collab (example_trainer [] (LoaderList [[1, 2], [3]]))))) \<and>
   tuning_line (3 / 4) (1 / 20) = ''Average tuning accuracy: 75.000% (+5.000%)''"
proof -
  have l: "tuning_line (3 / 4) (1 / 20) = ''Average tuning accuracy: 75.000% (+5.000%)''"
    by code_simp
  show ?thesis
    using tuning_sequence [where s = "example_trainer [] (LoaderList [[1, 2], [3]])" and E = example_collab]
    by (simp add: l example_trainer_def example_collab_def example_world_def example_model_def
        spec_tuning_sources_def spec_tuning_acc_def)
qed

text \<open>
  Claim C7 as it is stated, for every tuning pass, does not hold for a source that has
  no batch: \<open>_tune\<close> divides the sum of the accuracies by \<open>len(tune_loader)\<close>, which is 0.
  On the example trainer with an empty tuning source the pass ends with
  \<open>ZeroDivisionError\<close>; all it did was \<open>model.eval()\<close>: \<open>end_tuning\<close> was not called, no
  line was printed, and the model is left in evaluation mode. With the three sources
  \<open>[[1, 2], [], [3]]\<close> the pass ends with \<open>ZeroDivisionError\<close> after the line of the first
  source: the batch of the third source has no forward pass, and the model is left in
  evaluation mode.
\<close>

theorem tuning_empty_source_raises:
  "fst (tuning example_collab (example_trainer [] (Loader []))) = Inl ZeroDivisionError \<and>
   events (snd (tuning example_collab (example_trainer [] (Loader [])))) = [ModelEval] \<and>
   \<not> training (model (snd (tuning example_collab (example_trainer [] (Loader []))))) \<and>
   training (model (example_trainer [] (Loader []))) \<and>
   fst (tuning example_collab (example_trainer [] (LoaderList [[1, 2], [], [3]]))) =
     Inl ZeroDivisionError \<and>
   events (snd (tuning example_collab (example_trainer [] (LoaderList [[1, 2], [], [3]])))) =
     [ModelEval, ModelForward 1, ModelForward 2, HistoryEndTuning (3 / 4),
      Print (tuning_line (3 / 4) (1 / 20))] \<and>
   \<not> training (model (snd (tuning example_collab (example_trainer [] (LoaderList [[1, 2], [], [3]])))))"
proof -
  have a: "tuning example_collab (example_trainer [] (Loader [])) =
      (Inl ZeroDivisionError,
       (example_trainer [] (Loader []))\<lparr>events := [ModelEval],
          history := 0, model := example_model\<lparr>training := False\<rparr>\<rparr>)"
    using tuning_raises [of "example_trainer [] (Loader [])" "[]" "[]" example_collab]
    by (simp add: example_trainer_def example_world_def spec_tuning_sources_def)
  have b: "tuning example_collab (example_trainer [] (LoaderList [[1, 2], [], [3]])) =
      (Inl ZeroDivisionError,
       (example_trainer [] (LoaderList [[1, 2], [], [3]]))\<lparr>events :=
            [ModelEval, ModelForward 1, ModelForward 2, HistoryEndTuning (3 / 4),
             Print (tuning_line (3 / 4) (1 / 20))],
          history := 0, model := example_model\<lparr>training := False\<rparr>\<rparr>)"
    using tuning_raises [of "example_trainer [] (LoaderList [[1, 2], [], [3]])" "[[1, 2]]" "[[3]]"
        example_collab]
    by (simp add: example_trainer_def example_world_def example_collab_def
        spec_tuning_sources_def spec_tuning_acc_def)
  show ?thesis
    unfolding a b by (simp add: example_trainer_def example_model_def)
qed

section \<open>Progress lines\<close>

lemma printed_lines_append [simp]:
  "printed_lines (xs @ ys) = printed_lines xs @ printed_lines ys"
  by (simp add: printed_lines_def)

lemma printed_lines_simps [simp]:
  "printed_lines [] = []"
  "printed_lines (Print line # evs) = line # printed_lines evs"
  "printed_lines (ModelZeroGrad # evs) = printed_lines evs"
  "printed_lines (ModelForward b # evs) = printed_lines evs"
  "printed_lines (ModelOptimize l # evs) = printed_lines evs"
  "printed_lines (HistoryEndStep d x a # evs) = printed_lines evs"
  by (simp_all add: printed_lines_def)

















end
